theory Spec2Isabelle
  imports Complex_Main
begin

section \<open>Element framework: atomic impedance, channel frequencies and matching\<close>

text \<open>
  A shallow embedding of \<^verbatim>\<open>element_framework.py\<close>. Python floats are modelled by the
  real numbers: \<^verbatim>\<open>np.sqrt\<close>, \<^verbatim>\<open>np.log\<close>, \<^verbatim>\<open>np.log10\<close>, \<^verbatim>\<open>np.exp\<close> and \<^verbatim>\<open>**\<close> are
  \<^const>\<open>sqrt\<close>, \<^const>\<open>ln\<close>, \<^const>\<open>log\<close>, \<^const>\<open>exp\<close> and \<^const>\<open>powr\<close>, without rounding error.
  Where a float operation of the source leaves the finite reals, the model says so
  with a value of type \<open>fault\<close> instead of computing with HOL's total functions.
\<close>

subsection \<open>Outcomes of the arithmetic\<close>

text \<open>
  \<open>ZeroDivisionError\<close> is the exception Python raises for a float divided by zero and
  for zero raised to a negative power. \<open>NotFiniteReal\<close> stands for every other way a
  float computation of the source leaves the finite reals: numpy's \<^verbatim>\<open>nan\<close> and
  \<^verbatim>\<open>inf\<close> (square root of a negative number, logarithm of a number that is not positive,
  a numpy float divided by zero), the complex result of a negative base raised to a
  fractional power, and the exception \<^verbatim>\<open>round\<close> raises on \<^verbatim>\<open>nan\<close> or \<^verbatim>\<open>inf\<close>.
  The model follows such a computation no further.
\<close>

datatype fault = ZeroDivisionError | NotFiniteReal

subsection \<open>Physical constants\<close>

definition H_PLANCK_EV :: real where
  "H_PLANCK_EV = 4135667 / 10 ^ 21"

subsection \<open>Element data\<close>

text \<open>
  An entry of \<^verbatim>\<open>ELEMENT_DATA\<close>: atomic number, atomic mass (amu), ionization energy
  (eV), Pauling electronegativity (\<open>None\<close> for the noble gases), atomic radius (pm),
  electron configuration. The dictionary is an association list in the order of the
  source; its keys are distinct, so \<^const>\<open>map_of\<close> is the lookup.
\<close>

type_synonym element_data = "nat \<times> real \<times> real \<times> real option \<times> real \<times> string"

definition ELEMENT_DATA :: "(string \<times> element_data) list" where
  "ELEMENT_DATA = [
  (''H'', (1, 1.008, 13.598, Some 2.20, 53, ''1s1'')),
  (''He'', (2, 4.003, 24.587, None, 31, ''1s2'')),
  (''Li'', (3, 6.941, 5.392, Some 0.98, 167, ''[He]2s1'')),
  (''Be'', (4, 9.012, 9.323, Some 1.57, 112, ''[He]2s2'')),
  (''B'', (5, 10.81, 8.298, Some 2.04, 87, ''[He]2s2 2p1'')),
  (''C'', (6, 12.01, 11.260, Some 2.55, 77, ''[He]2s2 2p2'')),
  (''N'', (7, 14.01, 14.534, Some 3.04, 75, ''[He]2s2 2p3'')),
  (''O'', (8, 16.00, 13.618, Some 3.44, 73, ''[He]2s2 2p4'')),
  (''F'', (9, 19.00, 17.423, Some 3.98, 71, ''[He]2s2 2p5'')),
  (''Ne'', (10, 20.18, 21.565, None, 69, ''[He]2s2 2p6'')),
  (''Na'', (11, 22.99, 5.139, Some 0.93, 190, ''[Ne]3s1'')),
  (''Mg'', (12, 24.31, 7.646, Some 1.31, 160, ''[Ne]3s2'')),
  (''Al'', (13, 26.98, 5.986, Some 1.61, 143, ''[Ne]3s2 3p1'')),
  (''Si'', (14, 28.09, 8.152, Some 1.90, 118, ''[Ne]3s2 3p2'')),
  (''P'', (15, 30.97, 10.487, Some 2.19, 110, ''[Ne]3s2 3p3'')),
  (''S'', (16, 32.07, 10.360, Some 2.58, 103, ''[Ne]3s2 3p4'')),
  (''Cl'', (17, 35.45, 12.968, Some 3.16, 99, ''[Ne]3s2 3p5'')),
  (''Ar'', (18, 39.95, 15.760, None, 97, ''[Ne]3s2 3p6'')),
  (''K'', (19, 39.10, 4.341, Some 0.82, 243, ''[Ar]4s1'')),
  (''Ca'', (20, 40.08, 6.113, Some 1.00, 194, ''[Ar]4s2'')),
  (''Sc'', (21, 44.96, 6.561, Some 1.36, 184, ''[Ar]3d1 4s2'')),
  (''Ti'', (22, 47.87, 6.828, Some 1.54, 176, ''[Ar]3d2 4s2'')),
  (''V'', (23, 50.94, 6.746, Some 1.63, 171, ''[Ar]3d3 4s2'')),
  (''Cr'', (24, 52.00, 6.767, Some 1.66, 166, ''[Ar]3d5 4s1'')),
  (''Mn'', (25, 54.94, 7.434, Some 1.55, 161, ''[Ar]3d5 4s2'')),
  (''Fe'', (26, 55.85, 7.902, Some 1.83, 156, ''[Ar]3d6 4s2'')),
  (''Co'', (27, 58.93, 7.881, Some 1.88, 152, ''[Ar]3d7 4s2'')),
  (''Ni'', (28, 58.69, 7.640, Some 1.91, 149, ''[Ar]3d8 4s2'')),
  (''Cu'', (29, 63.55, 7.726, Some 1.90, 145, ''[Ar]3d10 4s1'')),
  (''Zn'', (30, 65.38, 9.394, Some 1.65, 142, ''[Ar]3d10 4s2'')),
  (''Ga'', (31, 69.72, 5.999, Some 1.81, 136, ''[Ar]3d10 4s2 4p1'')),
  (''Ge'', (32, 72.63, 7.900, Some 2.01, 125, ''[Ar]3d10 4s2 4p2'')),
  (''As'', (33, 74.92, 9.815, Some 2.18, 114, ''[Ar]3d10 4s2 4p3'')),
  (''Se'', (34, 78.97, 9.752, Some 2.55, 103, ''[Ar]3d10 4s2 4p4'')),
  (''Br'', (35, 79.90, 11.814, Some 2.96, 94, ''[Ar]3d10 4s2 4p5'')),
  (''Kr'', (36, 83.80, 14.000, None, 88, ''[Ar]3d10 4s2 4p6'')),
  (''Rb'', (37, 85.47, 4.177, Some 0.82, 265, ''[Kr]5s1'')),
  (''Sr'', (38, 87.62, 5.695, Some 0.95, 219, ''[Kr]5s2'')),
  (''Ag'', (47, 107.87, 7.576, Some 1.93, 165, ''[Kr]4d10 5s1'')),
  (''Sn'', (50, 118.71, 7.344, Some 1.96, 145, ''[Kr]4d10 5s2 5p2'')),
  (''I'', (53, 126.90, 10.451, Some 2.66, 133, ''[Kr]4d10 5s2 5p5'')),
  (''Cs'', (55, 132.91, 3.894, Some 0.79, 298, ''[Xe]6s1'')),
  (''Ba'', (56, 137.33, 5.212, Some 0.89, 253, ''[Xe]6s2'')),
  (''Au'', (79, 196.97, 9.226, Some 2.54, 174, ''[Xe]4f14 5d10 6s1'')),
  (''Hg'', (80, 200.59, 10.438, Some 2.00, 171, ''[Xe]4f14 5d10 6s2'')),
  (''Pb'', (82, 207.2, 7.417, Some 2.33, 154, ''[Xe]4f14 5d10 6s2 6p2'')),
  (''U'', (92, 238.03, 6.194, Some 1.38, 196, ''[Rn]5f3 6d1 7s2''))]"

text \<open>
  A value of \<^verbatim>\<open>PLANETARY_METALS\<close>. The planet's glyph is a single character outside
  ASCII; it is kept as its Unicode code point.
\<close>

record planetary =
  planet :: string
  planet_symbol :: nat
  day :: string
  quality :: string

definition PLANETARY_METALS :: "(string \<times> planetary) list" where
  "PLANETARY_METALS = [
  (''Au'', \<lparr>planet = ''Sun'', planet_symbol = 9737, day = ''Sunday'',
     quality = ''Perfection, illumination''\<rparr>),
  (''Ag'', \<lparr>planet = ''Moon'', planet_symbol = 9789, day = ''Monday'',
     quality = ''Reflection, intuition''\<rparr>),
  (''Hg'', \<lparr>planet = ''Mercury'', planet_symbol = 9791, day = ''Wednesday'',
     quality = ''Transformation, communication''\<rparr>),
  (''Cu'', \<lparr>planet = ''Venus'', planet_symbol = 9792, day = ''Friday'',
     quality = ''Love, beauty, harmony''\<rparr>),
  (''Fe'', \<lparr>planet = ''Mars'', planet_symbol = 9794, day = ''Tuesday'',
     quality = ''Strength, action, will''\<rparr>),
  (''Sn'', \<lparr>planet = ''Jupiter'', planet_symbol = 9795, day = ''Thursday'',
     quality = ''Expansion, abundance''\<rparr>),
  (''Pb'', \<lparr>planet = ''Saturn'', planet_symbol = 9796, day = ''Saturday'',
     quality = ''Structure, limitation, time''\<rparr>)]"

definition ELEMENT_NAMES :: "(string \<times> string) list" where
  "ELEMENT_NAMES = [
  (''H'', ''Hydrogen''),
  (''He'', ''Helium''),
  (''Li'', ''Lithium''),
  (''Be'', ''Beryllium''),
  (''B'', ''Boron''),
  (''C'', ''Carbon''),
  (''N'', ''Nitrogen''),
  (''O'', ''Oxygen''),
  (''F'', ''Fluorine''),
  (''Ne'', ''Neon''),
  (''Na'', ''Sodium''),
  (''Mg'', ''Magnesium''),
  (''Al'', ''Aluminum''),
  (''Si'', ''Silicon''),
  (''P'', ''Phosphorus''),
  (''S'', ''Sulfur''),
  (''Cl'', ''Chlorine''),
  (''Ar'', ''Argon''),
  (''K'', ''Potassium''),
  (''Ca'', ''Calcium''),
  (''Sc'', ''Scandium''),
  (''Ti'', ''Titanium''),
  (''V'', ''Vanadium''),
  (''Cr'', ''Chromium''),
  (''Mn'', ''Manganese''),
  (''Fe'', ''Iron''),
  (''Co'', ''Cobalt''),
  (''Ni'', ''Nickel''),
  (''Cu'', ''Copper''),
  (''Zn'', ''Zinc''),
  (''Ga'', ''Gallium''),
  (''Ge'', ''Germanium''),
  (''As'', ''Arsenic''),
  (''Se'', ''Selenium''),
  (''Br'', ''Bromine''),
  (''Kr'', ''Krypton''),
  (''Rb'', ''Rubidium''),
  (''Sr'', ''Strontium''),
  (''Ag'', ''Silver''),
  (''Sn'', ''Tin''),
  (''I'', ''Iodine''),
  (''Cs'', ''Cesium''),
  (''Ba'', ''Barium''),
  (''Au'', ''Gold''),
  (''Hg'', ''Mercury''),
  (''Pb'', ''Lead''),
  (''U'', ''Uranium'')]"

subsection \<open>The profile of an element\<close>

record element_profile =
  symbol :: string
  name :: string
  atomic_number :: nat
  atomic_mass :: real
  ionization_energy :: real
  electronegativity :: "real option"
  atomic_radius :: real
  electron_config :: string
  impedance :: real
  impedance_log :: real
  f_quantum :: real
  f_acoustic :: real
  f_chemical :: real
  consciousness_affinity :: real
  nearest_brainwave :: string
  planetary_metal :: "planetary option"
  category :: string

subsection \<open>Impedance\<close>

text \<open>
  \<^verbatim>\<open>calculate_atomic_impedance\<close>. With no electronegativity the quotient is a division
  of Python floats, which raises on a zero divisor; with one, the dividend is a numpy
  float and a zero divisor gives \<^verbatim>\<open>inf\<close> or \<^verbatim>\<open>nan\<close>. The function checks none of its
  arguments.
\<close>

definition calculate_atomic_impedance ::
  "real \<Rightarrow> real option \<Rightarrow> real \<Rightarrow> fault + real \<times> real" where
  "calculate_atomic_impedance ionization_ev chi_opt radius_pm =
     (let r_angstrom = radius_pm / 100 in
      case (case chi_opt of
              None \<Rightarrow>
                if r_angstrom = 0 then Inl ZeroDivisionError
                else Inr (ionization_ev / r_angstrom)
            | Some chi \<Rightarrow>
                if ionization_ev * chi < 0 \<or> r_angstrom = 0 then Inl NotFiniteReal
                else Inr (sqrt (ionization_ev * chi) / r_angstrom)) of
        Inl e \<Rightarrow> Inl e
      | Inr Z \<Rightarrow> if Z + 1 \<le> 0 then Inl NotFiniteReal else Inr (Z, ln (Z + 1)))"

subsection \<open>Channel frequencies\<close>

text \<open>
  \<^verbatim>\<open>calculate_frequencies\<close>. Python's \<^verbatim>\<open>**\<close> raises on a zero base with a negative
  exponent and returns a complex number on a negative base with a fractional one.
\<close>

definition calculate_frequencies :: "real \<Rightarrow> real \<Rightarrow> fault + real \<times> real \<times> real" where
  "calculate_frequencies ionization_ev atomic_mass_amu =
     (if atomic_mass_amu = 0 then Inl ZeroDivisionError
      else if atomic_mass_amu < 0 then Inl NotFiniteReal
      else
        let fq = ionization_ev / H_PLANCK_EV;
            fa = 10 ^ 13 * (atomic_mass_amu powr (- 1 / 3));
            bond_energy_est = 0.3 * ionization_ev;
            fc = bond_energy_est / H_PLANCK_EV
        in Inr (fq, fa, fc))"

subsection \<open>Consciousness affinity\<close>

text \<open>
  Python's built-in \<^verbatim>\<open>round\<close> with one argument, which is also what a numpy float's
  \<^verbatim>\<open>__round__\<close> does: the nearest integer, and the even one of the two when the
  argument lies half-way between them.
\<close>

definition py_round :: "real \<Rightarrow> int" where
  "py_round x =
     (let f = \<lfloor>x\<rfloor>; d = x - of_int f
      in if d < 1 / 2 then f
         else if 1 / 2 < d then f + 1
         else if even f then f else f + 1)"

text \<open>
  The rounding rule the specification asks for, written from its words: the nearest
  integer, and the one farther from zero at a tie. It is not part of the source.
\<close>

definition round_half_away_from_zero :: "real \<Rightarrow> int" where
  "round_half_away_from_zero x = (if 0 \<le> x then \<lfloor>x + 1 / 2\<rfloor> else \<lceil>x - 1 / 2\<rceil>)"

definition consciousness_freqs :: "(string \<times> real) list" where
  "consciousness_freqs =
     [(''delta'', 2), (''theta'', 6), (''alpha'', 10), (''beta'', 20), (''gamma'', 40),
      (''high_gamma'', 100)]"

text \<open>The body of the loop over the bands, up to the comparison with the best so far.\<close>

definition log_ratio :: "real \<Rightarrow> real \<Rightarrow> real" where
  "log_ratio fa f_brain = log 10 (fa / f_brain)"

definition nearest_octave :: "real \<Rightarrow> real \<Rightarrow> int" where
  "nearest_octave fa f_brain = py_round (log_ratio fa f_brain)"

definition band_affinity :: "real \<Rightarrow> real \<Rightarrow> real" where
  "band_affinity fa f_brain =
     (let deviation = \<bar>log_ratio fa f_brain - of_int (nearest_octave fa f_brain)\<bar>
      in exp (- deviation * 5))"

text \<open>
  The loop, with \<open>best_match\<close> and \<open>best_affinity\<close> as its state. The logarithm of a
  ratio that is not positive is \<^verbatim>\<open>-inf\<close> or \<^verbatim>\<open>nan\<close>, on which \<^verbatim>\<open>round\<close> raises.
\<close>

fun affinity_loop ::
  "(string \<times> real) list \<Rightarrow> real \<Rightarrow> string \<times> real \<Rightarrow> fault + string \<times> real" where
  "affinity_loop [] fa best = Inr best"
| "affinity_loop ((band, f_brain) # rest) fa (best_match, best_affinity) =
     (if fa / f_brain \<le> 0 then Inl NotFiniteReal
      else if band_affinity fa f_brain > best_affinity
        then affinity_loop rest fa (band, band_affinity fa f_brain)
        else affinity_loop rest fa (best_match, best_affinity))"

definition calculate_consciousness_affinity ::
  "real \<Rightarrow> real \<Rightarrow> real \<Rightarrow> real \<Rightarrow> fault + real \<times> string" where
  "calculate_consciousness_affinity fq fa fc imp =
     (case affinity_loop consciousness_freqs fa (''none'', 0) of
        Inl e \<Rightarrow> Inl e
      | Inr (best_match, best_affinity) \<Rightarrow>
          let optimal_impedance = 3;
              impedance_factor = exp (- (((imp - optimal_impedance) / 2) ^ 2));
              final_affinity = best_affinity * impedance_factor
          in Inr (min 1 final_affinity, best_match))"

subsection \<open>Classification\<close>

definition classify_element :: "nat \<Rightarrow> string \<Rightarrow> string" where
  "classify_element z config =
     (if z \<in> set [2, 10, 18, 36, 54, 86] then ''Noble Gas''
      else if z \<in> set [1] then ''Nonmetal''
      else if z \<in> set [3, 11, 19, 37, 55, 87] then ''Alkali Metal''
      else if z \<in> set [4, 12, 20, 38, 56, 88] then ''Alkaline Earth''
      else if z \<in> set [6, 7, 8, 15, 16, 34] then ''Nonmetal''
      else if z \<in> set [9, 17, 35, 53, 85] then ''Halogen''
      else if (21 \<le> z \<and> z \<le> 30) \<or> (39 \<le> z \<and> z \<le> 48) \<or> (72 \<le> z \<and> z \<le> 80)
        then ''Transition Metal''
      else if 57 \<le> z \<and> z \<le> 71 then ''Lanthanide''
      else if 89 \<le> z \<and> z \<le> 103 then ''Actinide''
      else ''Other Metal'')"

subsection \<open>Analysis of one element\<close>

text \<open>
  \<^verbatim>\<open>analyze_element\<close> returns \<^verbatim>\<open>None\<close> for a symbol that is not a key of the table, and
  the profile otherwise.
\<close>

definition analyze_element :: "string \<Rightarrow> fault + element_profile option" where
  "analyze_element s =
     (case map_of ELEMENT_DATA s of
        None \<Rightarrow> Inr None
      | Some (z, mass, e_ion, chi, radius, config) \<Rightarrow>
          (case calculate_atomic_impedance e_ion chi radius of
             Inl e \<Rightarrow> Inl e
           | Inr (imp, imp_log) \<Rightarrow>
               (case calculate_frequencies e_ion mass of
                  Inl e \<Rightarrow> Inl e
                | Inr (fq, fa, fc) \<Rightarrow>
                    (case calculate_consciousness_affinity fq fa fc imp of
                       Inl e \<Rightarrow> Inl e
                     | Inr (affinity, nearest_band) \<Rightarrow>
                         Inr (Some
                           \<lparr>symbol = s,
                            name = (case map_of ELEMENT_NAMES s of
                                      None \<Rightarrow> s | Some n \<Rightarrow> n),
                            atomic_number = z,
                            atomic_mass = mass,
                            ionization_energy = e_ion,
                            electronegativity = chi,
                            atomic_radius = radius,
                            electron_config = config,
                            impedance = imp,
                            impedance_log = imp_log,
                            f_quantum = fq,
                            f_acoustic = fa,
                            f_chemical = fc,
                            consciousness_affinity = affinity,
                            nearest_brainwave = nearest_band,
                            planetary_metal = map_of PLANETARY_METALS s,
                            category = classify_element z config\<rparr>)))))"

subsection \<open>Matching and compounds\<close>

text \<open>
  \<^verbatim>\<open>calculate_impedance_match\<close> returns a pair of a score and a text in every case:
  for a symbol that does not resolve, the score \<open>0.0\<close> and the text
  \<^verbatim>\<open>Unknown element\<close>.
\<close>

definition calculate_impedance_match :: "string \<Rightarrow> string \<Rightarrow> fault + real \<times> string" where
  "calculate_impedance_match element1 element2 =
     (case analyze_element element1 of
        Inl e \<Rightarrow> Inl e
      | Inr p1 \<Rightarrow>
          (case analyze_element element2 of
             Inl e \<Rightarrow> Inl e
           | Inr p2 \<Rightarrow>
               (case (p1, p2) of
                  (Some q1, Some q2) \<Rightarrow>
                    let sigma = 0.5;
                        delta_log = impedance_log q1 - impedance_log q2;
                        R = exp (- (delta_log ^ 2) / (2 * sigma ^ 2))
                    in Inr (R,
                         if R > 0.8 then ''Excellent match - natural affinity''
                         else if R > 0.5 then ''Good match - can combine with moderate energy''
                         else if R > 0.2
                           then ''Weak match - requires significant energy to combine''
                         else ''Poor match - unlikely to form stable compound'')
                | _ \<Rightarrow> Inr (0, ''Unknown element''))))"

text \<open>
  The dictionary \<^verbatim>\<open>predict_compound_frequency\<close> returns has one of two shapes: the
  single key \<^verbatim>\<open>error\<close> with a message, or the seven keys of a prediction.
\<close>

record compound_result =
  elements :: "string list"
  total_mass :: real
  f_acoustic_compound :: real
  f_chemical_avg :: real
  compound_impedance :: real
  average_impedance_match :: real
  stability_prediction :: string

datatype compound_dict = Error_dict string | Compound_dict compound_result

text \<open>\<^verbatim>\<open>np.mean\<close>; on an empty list numpy returns \<^verbatim>\<open>nan\<close>.\<close>

definition np_mean :: "real list \<Rightarrow> fault + real" where
  "np_mean xs = (if xs = [] then Inl NotFiniteReal else Inr (sum_list xs / real (length xs)))"

text \<open>The list comprehension over the symbols, left to right.\<close>

fun analyze_all :: "string list \<Rightarrow> fault + element_profile option list" where
  "analyze_all [] = Inr []"
| "analyze_all (e # es) =
     (case analyze_element e of
        Inl err \<Rightarrow> Inl err
      | Inr p \<Rightarrow> (case analyze_all es of Inl err \<Rightarrow> Inl err | Inr ps \<Rightarrow> Inr (p # ps)))"

text \<open>The inner and the outer loop over the pairs \<open>i < j\<close> of profiles.\<close>

fun match_row :: "element_profile \<Rightarrow> element_profile list \<Rightarrow> fault + real list" where
  "match_row p1 [] = Inr []"
| "match_row p1 (p2 # ps) =
     (case calculate_impedance_match (symbol p1) (symbol p2) of
        Inl err \<Rightarrow> Inl err
      | Inr (R, _) \<Rightarrow> (case match_row p1 ps of Inl err \<Rightarrow> Inl err | Inr rs \<Rightarrow> Inr (R # rs)))"

fun match_scores :: "element_profile list \<Rightarrow> fault + real list" where
  "match_scores [] = Inr []"
| "match_scores (p1 # ps) =
     (case match_row p1 ps of
        Inl err \<Rightarrow> Inl err
      | Inr row \<Rightarrow> (case match_scores ps of Inl err \<Rightarrow> Inl err | Inr others \<Rightarrow> Inr (row @ others)))"

definition predict_compound_frequency :: "string list \<Rightarrow> fault + compound_dict" where
  "predict_compound_frequency elems =
     (case analyze_all elems of
        Inl err \<Rightarrow> Inl err
      | Inr analysed \<Rightarrow>
          let profiles = List.map_filter (\<lambda>p. p) analysed in
          if length profiles < 2 then Inr (Error_dict ''Need at least 2 valid elements'')
          else
            let mass_sum = sum_list (map atomic_mass profiles) in
            if mass_sum = 0 then Inl ZeroDivisionError
            else if mass_sum < 0 then Inl NotFiniteReal
            else
              (case np_mean (map f_chemical profiles) of
                 Inl err \<Rightarrow> Inl err
               | Inr fc_avg \<Rightarrow>
                   (case np_mean (map impedance_log profiles) of
                      Inl err \<Rightarrow> Inl err
                    | Inr log_avg \<Rightarrow>
                        (case match_scores profiles of
                           Inl err \<Rightarrow> Inl err
                         | Inr scores \<Rightarrow>
                             (case (if scores \<noteq> [] then np_mean scores else Inr 0) of
                                Inl err \<Rightarrow> Inl err
                              | Inr avg_match \<Rightarrow>
                                  Inr (Compound_dict
                                    \<lparr>elements = map symbol profiles,
                                     total_mass = mass_sum,
                                     f_acoustic_compound = 10 ^ 13 * (mass_sum powr (- 1 / 3)),
                                     f_chemical_avg = fc_avg,
                                     compound_impedance = exp log_avg,
                                     average_impedance_match = avg_match,
                                     stability_prediction =
                                       (if avg_match > 0.5 then ''Stable''
                                        else if avg_match < 0.2 then ''Unstable''
                                        else ''Metastable'')\<rparr>))))))"

subsection \<open>The table's entries are in the domain of the formulas\<close>

definition valid_data :: "element_data \<Rightarrow> bool" where
  "valid_data d =
     (case d of (z, mass, e_ion, chi, radius, config) \<Rightarrow>
        0 < mass \<and> 0 < e_ion \<and> 0 < radius \<and> (case chi of None \<Rightarrow> True | Some c \<Rightarrow> 0 < c))"

lemma table_valid: "list_all (\<lambda>(k, d). valid_data d) ELEMENT_DATA"
  by (simp add: ELEMENT_DATA_def valid_data_def)

lemma lookup_valid:
  assumes "map_of ELEMENT_DATA s = Some d"
  shows "valid_data d"
proof -
  from assms have "(s, d) \<in> set ELEMENT_DATA" by (rule map_of_SomeD)
  with table_valid show ?thesis by (auto simp: list_all_iff)
qed

lemma impedance_None:
  assumes "radius \<noteq> 0" and "0 < e_ion / (radius / 100) + 1"
  shows "calculate_atomic_impedance e_ion None radius =
           Inr (e_ion / (radius / 100), ln (e_ion / (radius / 100) + 1))"
  using assms by (simp add: calculate_atomic_impedance_def Let_def)

lemma impedance_Some:
  assumes "0 < radius" and "0 \<le> e_ion * chi"
  shows "calculate_atomic_impedance e_ion (Some chi) radius =
           Inr (sqrt (e_ion * chi) / (radius / 100), ln (sqrt (e_ion * chi) / (radius / 100) + 1))"
proof -
  have "0 \<le> sqrt (e_ion * chi) / (radius / 100)" using assms by simp
  then have "\<not> sqrt (e_ion * chi) / (radius / 100) + 1 \<le> 0" by linarith
  then show ?thesis using assms by (simp add: calculate_atomic_impedance_def Let_def)
qed

lemma frequencies_pos:
  assumes "0 < mass"
  shows "calculate_frequencies e_ion mass =
           Inr (e_ion / H_PLANCK_EV, 10 ^ 13 * (mass powr (- 1 / 3)), 0.3 * e_ion / H_PLANCK_EV)"
  using assms by (simp add: calculate_frequencies_def Let_def)

lemma band_affinity_pos: "0 < band_affinity fa f_brain"
  by (simp add: band_affinity_def Let_def)

lemma affinity_loop_total:
  assumes "0 < fa" and "\<forall>(b, f) \<in> set bands. 0 < f"
  shows "\<exists>bm ba. affinity_loop bands fa best = Inr (bm, ba)"
  using assms
proof (induction bands fa best rule: affinity_loop.induct)
  case (1 fa best)
  then show ?case by (cases best) simp
next
  case (2 band f_brain rest fa best_match best_affinity)
  then have "0 < fa / f_brain" by simp
  then have "\<not> fa / f_brain \<le> 0" by linarith
  with 2 show ?case by auto
qed

lemma affinity_loop_result:
  assumes "0 < fa" and "\<forall>(b, f) \<in> set bands. 0 < f"
  shows "\<exists>bm ba. affinity_loop bands fa (bm0, ba0) = Inr (bm, ba) \<and>
           ((bm = bm0 \<and> ba = ba0) \<or> (bm \<in> fst ` set bands \<and> 0 < ba))"
  using assms
proof (induction bands arbitrary: bm0 ba0)
  case Nil
  then show ?case by simp
next
  case (Cons bf rest)
  obtain band f_brain where bf: "bf = (band, f_brain)" by (cases bf)
  from Cons.prems bf have "0 < fa / f_brain" by simp
  then have nz: "\<not> fa / f_brain \<le> 0" by linarith
  from Cons.prems have rest: "\<forall>(b, f) \<in> set rest. 0 < f" by simp
  show ?case
  proof (cases "band_affinity fa f_brain > ba0")
    case True
    from Cons.IH [OF Cons.prems(1) rest, of band "band_affinity fa f_brain"]
    obtain bm ba where
      r: "affinity_loop rest fa (band, band_affinity fa f_brain) = Inr (bm, ba)"
      and d: "(bm = band \<and> ba = band_affinity fa f_brain) \<or> (bm \<in> fst ` set rest \<and> 0 < ba)"
      by blast
    from d have "bm \<in> fst ` set (bf # rest) \<and> 0 < ba"
      using bf band_affinity_pos [of fa f_brain] by auto
    with r nz True bf show ?thesis by simp
  next
    case False
    from Cons.IH [OF Cons.prems(1) rest, of bm0 ba0]
    obtain bm ba where
      r: "affinity_loop rest fa (bm0, ba0) = Inr (bm, ba)"
      and d: "(bm = bm0 \<and> ba = ba0) \<or> (bm \<in> fst ` set rest \<and> 0 < ba)"
      by blast
    from d have "(bm = bm0 \<and> ba = ba0) \<or> (bm \<in> fst ` set (bf # rest) \<and> 0 < ba)" by auto
    with r nz False bf show ?thesis by simp
  qed
qed

lemma affinity_loop_from_zero:
  assumes "0 < fa" and "\<forall>(b, f) \<in> set bands. 0 < f" and "bands \<noteq> []"
  shows "\<exists>bm ba. affinity_loop bands fa (bm0, 0) = Inr (bm, ba) \<and>
           bm \<in> fst ` set bands \<and> 0 < ba"
proof -
  obtain band f_brain rest where b: "bands = (band, f_brain) # rest"
    using assms(3) by (cases bands) auto
  from assms(2) b have "0 < fa / f_brain" using assms(1) by simp
  then have nz: "\<not> fa / f_brain \<le> 0" by linarith
  from assms(2) b have rest: "\<forall>(b, f) \<in> set rest. 0 < f" by simp
  from affinity_loop_result [OF assms(1) rest, of band "band_affinity fa f_brain"]
  obtain bm ba where
    r: "affinity_loop rest fa (band, band_affinity fa f_brain) = Inr (bm, ba)"
    and d: "(bm = band \<and> ba = band_affinity fa f_brain) \<or> (bm \<in> fst ` set rest \<and> 0 < ba)"
    by blast
  from d have "bm \<in> fst ` set bands \<and> 0 < ba"
    using b band_affinity_pos [of fa f_brain] by auto
  with r nz b band_affinity_pos [of fa f_brain] show ?thesis by simp
qed

lemma consciousness_freqs_pos: "\<forall>(b, f) \<in> set consciousness_freqs. 0 < f"
  by (simp add: consciousness_freqs_def)

lemma consciousness_affinity_result:
  assumes "0 < fa"
  shows "\<exists>a b. calculate_consciousness_affinity fq fa fc imp = Inr (a, b) \<and>
           0 \<le> a \<and> a \<le> 1 \<and> b \<in> fst ` set consciousness_freqs"
proof -
  have ne: "consciousness_freqs \<noteq> []" by (simp add: consciousness_freqs_def)
  from affinity_loop_from_zero [OF assms consciousness_freqs_pos ne, of "''none''"]
  obtain bm ba where
    r: "affinity_loop consciousness_freqs fa (''none'', 0) = Inr (bm, ba)"
    and m: "bm \<in> fst ` set consciousness_freqs" and p: "0 < ba"
    by blast
  have "0 \<le> ba * exp (- (((imp - 3) / 2) ^ 2))" using p by simp
  then have "0 \<le> min 1 (ba * exp (- (((imp - 3) / 2) ^ 2)))" by simp
  moreover have "min 1 (ba * exp (- (((imp - 3) / 2) ^ 2))) \<le> 1" by simp
  ultimately show ?thesis
    using r m by (simp add: calculate_consciousness_affinity_def Let_def)
qed

lemma impedance_valid:
  assumes "0 < e_ion" and "0 < radius" and "case chi of None \<Rightarrow> True | Some c \<Rightarrow> 0 < c"
  shows "\<exists>Z. calculate_atomic_impedance e_ion chi radius = Inr (Z, ln (Z + 1)) \<and> 0 < Z"
proof (cases chi)
  case None
  have "0 < e_ion / (radius / 100)" using assms by simp
  moreover from this have "0 < e_ion / (radius / 100) + 1" by linarith
  ultimately show ?thesis using None impedance_None [of radius e_ion] assms by simp
next
  case (Some c)
  with assms have "0 < e_ion * c" by simp
  then have "0 < sqrt (e_ion * c) / (radius / 100)" using assms by simp
  moreover have "0 \<le> e_ion * c" using \<open>0 < e_ion * c\<close> by simp
  ultimately show ?thesis using Some impedance_Some [of radius e_ion c] assms by simp
qed

lemma analyze_element_None:
  assumes "map_of ELEMENT_DATA s = None"
  shows "analyze_element s = Inr None"
  using assms by (simp add: analyze_element_def)

lemma analyze_element_Some:
  assumes "map_of ELEMENT_DATA s = Some (z, mass, e_ion, chi, radius, config)"
  shows "\<exists>p. analyze_element s = Inr (Some p) \<and> symbol p = s \<and> atomic_mass p = mass \<and>
           0 < mass \<and>
           calculate_atomic_impedance e_ion chi radius = Inr (impedance p, impedance_log p) \<and>
           f_quantum p = e_ion / H_PLANCK_EV \<and>
           f_acoustic p = 10 ^ 13 * (mass powr (- 1 / 3)) \<and>
           f_chemical p = 0.3 * e_ion / H_PLANCK_EV \<and>
           0 \<le> consciousness_affinity p \<and> consciousness_affinity p \<le> 1 \<and>
           nearest_brainwave p \<in> fst ` set consciousness_freqs"
proof -
  from lookup_valid [OF assms]
  have v: "0 < mass" "0 < e_ion" "0 < radius" "case chi of None \<Rightarrow> True | Some c \<Rightarrow> 0 < c"
    by (simp_all add: valid_data_def)
  from impedance_valid [OF v(2) v(3) v(4)]
  obtain Z where Z: "calculate_atomic_impedance e_ion chi radius = Inr (Z, ln (Z + 1))"
    by blast
  note F = frequencies_pos [OF v(1), of e_ion]
  have "0 < (10::real) ^ 13 * (mass powr (- 1 / 3))" using v(1) by simp
  from consciousness_affinity_result [OF this,
      of "e_ion / H_PLANCK_EV" "0.3 * e_ion / H_PLANCK_EV" Z]
  obtain a b where
    A: "calculate_consciousness_affinity (e_ion / H_PLANCK_EV)
          (10 ^ 13 * (mass powr (- 1 / 3))) (0.3 * e_ion / H_PLANCK_EV) Z = Inr (a, b)"
    and a: "0 \<le> a" "a \<le> 1" and b: "b \<in> fst ` set consciousness_freqs"
    by blast
  show ?thesis
    using assms Z F A a b v(1) by (simp add: analyze_element_def)
qed

subsection \<open>Every symbol has an analysis\<close>

lemma analyze_element_in_table:
  assumes "s \<in> dom (map_of ELEMENT_DATA)"
  shows "\<exists>p. analyze_element s = Inr (Some p) \<and> symbol p = s \<and> 0 < atomic_mass p \<and>
           0 \<le> consciousness_affinity p \<and> consciousness_affinity p \<le> 1 \<and>
           nearest_brainwave p \<in> fst ` set consciousness_freqs"
proof -
  from assms obtain d where "map_of ELEMENT_DATA s = Some d" by blast
  moreover obtain z mass e_ion chi radius config
    where "d = (z, mass, e_ion, chi, radius, config)" by (cases d)
  ultimately have "map_of ELEMENT_DATA s = Some (z, mass, e_ion, chi, radius, config)" by simp
  from analyze_element_Some [OF this] show ?thesis by auto
qed

lemma analyze_element_not_in_table:
  assumes "s \<notin> dom (map_of ELEMENT_DATA)"
  shows "analyze_element s = Inr None"
proof -
  from assms have "map_of ELEMENT_DATA s = None" by (simp only: domIff not_not)
  then show ?thesis by (rule analyze_element_None)
qed

lemma impedance_match_score:
  assumes "analyze_element a = Inr (Some p)" and "analyze_element b = Inr (Some q)"
  shows "\<exists>l. calculate_impedance_match a b =
           Inr (exp (- ((impedance_log p - impedance_log q) ^ 2) / (2 * 0.5 ^ 2)), l)"
  using assms by (simp add: calculate_impedance_match_def Let_def)

section \<open>Properties of the matching score\<close>

text \<open>
  C8. The impedance match is symmetric: for all symbols \<open>a\<close> and \<open>b\<close> that are keys of
  the element table, \<^verbatim>\<open>calculate_impedance_match(a, b)\<close> and
  \<^verbatim>\<open>calculate_impedance_match(b, a)\<close> both return a pair, and with the same score \<open>R\<close>.
\<close>

theorem impedance_match_symmetric:
  assumes "a \<in> dom (map_of ELEMENT_DATA)" and "b \<in> dom (map_of ELEMENT_DATA)"
  shows "\<exists>R la lb. calculate_impedance_match a b = Inr (R, la) \<and>
           calculate_impedance_match b a = Inr (R, lb)"
proof -
  from analyze_element_in_table [OF assms(1)]
  obtain p where p: "analyze_element a = Inr (Some p)" by blast
  from analyze_element_in_table [OF assms(2)]
  obtain q where q: "analyze_element b = Inr (Some q)" by blast
  have sq: "(impedance_log p - impedance_log q) ^ 2 = (impedance_log q - impedance_log p) ^ 2"
    by (rule power2_commute)
  from impedance_match_score [OF p q] impedance_match_score [OF q p] sq
  show ?thesis by auto
qed

theorem impedance_match_symmetric_witness:
  "''Na'' \<in> dom (map_of ELEMENT_DATA) \<and> ''Cl'' \<in> dom (map_of ELEMENT_DATA) \<and>
   (\<exists>R la lb. calculate_impedance_match ''Na'' ''Cl'' = Inr (R, la) \<and>
      calculate_impedance_match ''Cl'' ''Na'' = Inr (R, lb))"
proof -
  have a: "''Na'' \<in> dom (map_of ELEMENT_DATA)" by (simp add: ELEMENT_DATA_def)
  have b: "''Cl'' \<in> dom (map_of ELEMENT_DATA)" by (simp add: ELEMENT_DATA_def)
  from impedance_match_symmetric [OF a b] a b show ?thesis by blast
qed

text \<open>
  C9. For every symbol \<open>a\<close> of the element table, matching \<open>a\<close> with itself returns the
  score \<open>1\<close> exactly (the difference of the two logarithmic impedances is \<open>0\<close>), with the
  text of the best class.
\<close>

theorem impedance_match_self:
  assumes "a \<in> dom (map_of ELEMENT_DATA)"
  shows "calculate_impedance_match a a = Inr (1, ''Excellent match - natural affinity'')"
proof -
  from analyze_element_in_table [OF assms]
  obtain p where p: "analyze_element a = Inr (Some p)" by blast
  then show ?thesis by (simp add: calculate_impedance_match_def Let_def)
qed

theorem impedance_match_self_witness:
  "''Fe'' \<in> dom (map_of ELEMENT_DATA) \<and>
   calculate_impedance_match ''Fe'' ''Fe'' = Inr (1, ''Excellent match - natural affinity'')"
proof -
  have a: "''Fe'' \<in> dom (map_of ELEMENT_DATA)" by (simp add: ELEMENT_DATA_def)
  from impedance_match_self [OF a] a show ?thesis by simp
qed

section \<open>Properties of the profile\<close>

text \<open>
  C7. For every symbol of the element table, \<^verbatim>\<open>analyze_element\<close> returns a profile, and
  its \<open>consciousness_affinity\<close> lies in the closed interval from \<open>0\<close> to \<open>1\<close>.
\<close>

theorem consciousness_affinity_unit_interval:
  assumes "s \<in> dom (map_of ELEMENT_DATA)"
  shows "\<exists>p. analyze_element s = Inr (Some p) \<and>
           0 \<le> consciousness_affinity p \<and> consciousness_affinity p \<le> 1"
  using analyze_element_in_table [OF assms] by blast

theorem consciousness_affinity_unit_interval_witness:
  "''Zn'' \<in> dom (map_of ELEMENT_DATA) \<and>
   (\<exists>p. analyze_element ''Zn'' = Inr (Some p) \<and>
      0 \<le> consciousness_affinity p \<and> consciousness_affinity p \<le> 1)"
proof -
  have a: "''Zn'' \<in> dom (map_of ELEMENT_DATA)" by (simp add: ELEMENT_DATA_def)
  from consciousness_affinity_unit_interval [OF a] a show ?thesis by blast
qed

text \<open>
  C10. For every symbol of the element table, the \<open>nearest_brainwave\<close> of the profile is
  one of the six band labels and never the initial \<^verbatim>\<open>none\<close>: the affinity of every band
  is strictly positive, so the first band already beats the initial best affinity \<open>0\<close>.
\<close>

theorem nearest_brainwave_is_band:
  assumes "s \<in> dom (map_of ELEMENT_DATA)"
  shows "\<exists>p. analyze_element s = Inr (Some p) \<and>
           nearest_brainwave p \<in>
             {''delta'', ''theta'', ''alpha'', ''beta'', ''gamma'', ''high_gamma''} \<and>
           nearest_brainwave p \<noteq> ''none'' \<and>
           (\<forall>f_brain. 0 < band_affinity (f_acoustic p) f_brain)"
proof -
  from analyze_element_in_table [OF assms]
  obtain p where p: "analyze_element s = Inr (Some p)"
    and b: "nearest_brainwave p \<in> fst ` set consciousness_freqs"
    by blast
  from b have m: "nearest_brainwave p \<in>
      {''delta'', ''theta'', ''alpha'', ''beta'', ''gamma'', ''high_gamma''}"
    by (simp add: consciousness_freqs_def)
  then have "nearest_brainwave p \<noteq> ''none''" by auto
  with p m band_affinity_pos show ?thesis by blast
qed

theorem nearest_brainwave_is_band_witness:
  "''Au'' \<in> dom (map_of ELEMENT_DATA) \<and>
   (\<exists>p. analyze_element ''Au'' = Inr (Some p) \<and>
      nearest_brainwave p \<in>
        {''delta'', ''theta'', ''alpha'', ''beta'', ''gamma'', ''high_gamma''} \<and>
      nearest_brainwave p \<noteq> ''none'' \<and>
      (\<forall>f_brain. 0 < band_affinity (f_acoustic p) f_brain))"
proof -
  have a: "''Au'' \<in> dom (map_of ELEMENT_DATA)" by (simp add: ELEMENT_DATA_def)
  from nearest_brainwave_is_band [OF a] a show ?thesis by blast
qed

section \<open>Symbols that do not resolve\<close>

lemma analyze_element_returns: "\<exists>po. analyze_element s = Inr po \<and> (po = None \<longleftrightarrow> s \<notin> dom (map_of ELEMENT_DATA))"
proof (cases "s \<in> dom (map_of ELEMENT_DATA)")
  case True
  from analyze_element_in_table [OF True] True show ?thesis by auto
next
  case False
  from analyze_element_not_in_table [OF False] False show ?thesis by simp
qed

text \<open>
  C1, as the code has it. When at least one of the two symbols is not a key of the
  element table, \<^verbatim>\<open>calculate_impedance_match\<close> returns normally, and what it returns is
  a pair of the ordinary result type: the score \<open>0.0\<close> and the text \<^verbatim>\<open>Unknown element\<close>.
\<close>

theorem impedance_match_unknown:
  assumes "a \<notin> dom (map_of ELEMENT_DATA) \<or> b \<notin> dom (map_of ELEMENT_DATA)"
  shows "calculate_impedance_match a b = Inr (0, ''Unknown element'')"
proof -
  obtain pa where pa: "analyze_element a = Inr pa"
    and na: "pa = None \<longleftrightarrow> a \<notin> dom (map_of ELEMENT_DATA)"
    using analyze_element_returns [of a] by blast
  obtain pb where pb: "analyze_element b = Inr pb"
    and nb: "pb = None \<longleftrightarrow> b \<notin> dom (map_of ELEMENT_DATA)"
    using analyze_element_returns [of b] by blast
  from assms na nb have "pa = None \<or> pb = None" by blast
  then show ?thesis
    using pa pb by (auto simp: calculate_impedance_match_def split: option.splits)
qed

theorem impedance_match_unknown_witness:
  "''Zz'' \<notin> dom (map_of ELEMENT_DATA) \<and>
   calculate_impedance_match ''H'' ''Zz'' = Inr (0, ''Unknown element'')"
proof -
  have z: "''Zz'' \<notin> dom (map_of ELEMENT_DATA)"
    by (simp add: ELEMENT_DATA_def dom_def)
  then have "''H'' \<notin> dom (map_of ELEMENT_DATA) \<or> ''Zz'' \<notin> dom (map_of ELEMENT_DATA)"
    by (rule disjI2)
  from impedance_match_unknown [OF this] z show ?thesis by (rule conjI [rotated])
qed

text \<open>
  The claim as the specification states it fails at the symbols \<^verbatim>\<open>Xx\<close> and \<^verbatim>\<open>H\<close>: the
  call does not fail, it returns a score and a text.
\<close>

theorem impedance_match_unknown_counterexample:
  "\<not> isl (calculate_impedance_match ''Xx'' ''H'') \<and>
   calculate_impedance_match ''Xx'' ''H'' = Inr (0, ''Unknown element'')"
proof -
  have "''Xx'' \<notin> dom (map_of ELEMENT_DATA)" by (simp add: ELEMENT_DATA_def dom_def)
  then have "analyze_element ''Xx'' = Inr None" by (rule analyze_element_not_in_table)
  moreover obtain pb where "analyze_element ''H'' = Inr pb"
    using analyze_element_returns [of "''H''"] by blast
  ultimately show ?thesis by (simp add: calculate_impedance_match_def)
qed

section \<open>Rounding to the nearest octave\<close>

lemma py_round_near: "\<bar>x - of_int (py_round x)\<bar> \<le> 1 / 2"
proof -
  have "of_int \<lfloor>x\<rfloor> \<le> x" and "x < of_int \<lfloor>x\<rfloor> + 1" by linarith+
  then show ?thesis by (auto simp: py_round_def Let_def)
qed

lemma py_round_tie_even:
  assumes "\<bar>x - of_int (py_round x)\<bar> = 1 / 2"
  shows "even (py_round x)"
proof -
  have fl: "of_int \<lfloor>x\<rfloor> \<le> x" "x < of_int \<lfloor>x\<rfloor> + 1" by linarith+
  show ?thesis
  proof (cases "x - of_int \<lfloor>x\<rfloor> < 1 / 2")
    case True
    then have "py_round x = \<lfloor>x\<rfloor>" by (simp add: py_round_def Let_def)
    with assms True fl show ?thesis by simp
  next
    case False
    show ?thesis
    proof (cases "1 / 2 < x - of_int \<lfloor>x\<rfloor>")
      case True
      then have "py_round x = \<lfloor>x\<rfloor> + 1" using False by (simp add: py_round_def Let_def)
      with assms True fl show ?thesis by simp
    next
      case nt: False
      with False show ?thesis by (simp add: py_round_def Let_def)
    qed
  qed
qed

lemma py_round_no_tie:
  assumes "\<bar>x - of_int (py_round x)\<bar> \<noteq> 1 / 2"
  shows "py_round x = round_half_away_from_zero x"
proof -
  have fl: "of_int \<lfloor>x\<rfloor> \<le> x" "x < of_int \<lfloor>x\<rfloor> + 1" by linarith+
  have nt: "x - of_int \<lfloor>x\<rfloor> \<noteq> 1 / 2"
  proof
    assume t: "x - of_int \<lfloor>x\<rfloor> = 1 / 2"
    then have "py_round x = \<lfloor>x\<rfloor> \<or> py_round x = \<lfloor>x\<rfloor> + 1"
      by (simp add: py_round_def Let_def)
    with t have "\<bar>x - of_int (py_round x)\<bar> = 1 / 2" by auto
    with assms show False by simp
  qed
  show ?thesis
  proof (cases "x - of_int \<lfloor>x\<rfloor> < 1 / 2")
    case True
    then have p: "py_round x = \<lfloor>x\<rfloor>" by (simp add: py_round_def Let_def)
    have "of_int \<lfloor>x\<rfloor> \<le> x + 1 / 2" and "x + 1 / 2 < of_int \<lfloor>x\<rfloor> + 1"
      using True fl by linarith+
    then have "\<lfloor>x + 1 / 2\<rfloor> = \<lfloor>x\<rfloor>" by (rule floor_unique)
    moreover have "of_int \<lfloor>x\<rfloor> - 1 < x - 1 / 2" and "x - 1 / 2 \<le> of_int \<lfloor>x\<rfloor>"
      using True fl by linarith+
    then have "\<lceil>x - 1 / 2\<rceil> = \<lfloor>x\<rfloor>" by (rule ceiling_unique)
    ultimately show ?thesis using p by (simp add: round_half_away_from_zero_def)
  next
    case False
    with nt have g: "1 / 2 < x - of_int \<lfloor>x\<rfloor>" by simp
    then have p: "py_round x = \<lfloor>x\<rfloor> + 1" by (simp add: py_round_def Let_def)
    have "of_int (\<lfloor>x\<rfloor> + 1) \<le> x + 1 / 2" and "x + 1 / 2 < of_int (\<lfloor>x\<rfloor> + 1) + 1"
      unfolding of_int_add of_int_1 using g fl by linarith+
    then have "\<lfloor>x + 1 / 2\<rfloor> = \<lfloor>x\<rfloor> + 1" by (rule floor_unique)
    moreover have "of_int (\<lfloor>x\<rfloor> + 1) - 1 < x - 1 / 2" and "x - 1 / 2 \<le> of_int (\<lfloor>x\<rfloor> + 1)"
      unfolding of_int_add of_int_1 using g fl by linarith+
    then have "\<lceil>x - 1 / 2\<rceil> = \<lfloor>x\<rfloor> + 1" by (rule ceiling_unique)
    ultimately show ?thesis using p by (simp add: round_half_away_from_zero_def)
  qed
qed

lemma log_ratio_tie: "log_ratio (2 * sqrt 10) 2 = 1 / 2"
proof -
  have "log 10 (sqrt 10) = log 10 10 / 2"
    unfolding sqrt_def by (simp add: log_root)
  then show ?thesis by (simp add: log_ratio_def)
qed

lemma log_ratio_octave: "log_ratio 20 2 = 1"
  by (simp add: log_ratio_def)

text \<open>
  C3, as the code has it. For every band, \<open>nearest_octave\<close> is \<open>log_ratio\<close> rounded by
  Python's \<^verbatim>\<open>round\<close>: an integer at distance at most one half, the even one when the
  distance is exactly one half. It is the value rounding half away from zero gives
  whenever \<open>log_ratio\<close> is not half-way between two integers.
\<close>

theorem nearest_octave_half_even:
  "\<bar>log_ratio fa f_brain - of_int (nearest_octave fa f_brain)\<bar> \<le> 1 / 2 \<and>
   (\<bar>log_ratio fa f_brain - of_int (nearest_octave fa f_brain)\<bar> = 1 / 2 \<longrightarrow>
      even (nearest_octave fa f_brain)) \<and>
   (\<bar>log_ratio fa f_brain - of_int (nearest_octave fa f_brain)\<bar> \<noteq> 1 / 2 \<longrightarrow>
      nearest_octave fa f_brain = round_half_away_from_zero (log_ratio fa f_brain))"
  unfolding nearest_octave_def
  using py_round_near py_round_tie_even py_round_no_tie by blast

theorem nearest_octave_half_even_witness:
  "\<bar>log_ratio (2 * sqrt 10) 2 - of_int (nearest_octave (2 * sqrt 10) 2)\<bar> = 1 / 2 \<and>
   even (nearest_octave (2 * sqrt 10) 2) \<and>
   \<bar>log_ratio 20 2 - of_int (nearest_octave 20 2)\<bar> \<noteq> 1 / 2 \<and>
   nearest_octave 20 2 = round_half_away_from_zero (log_ratio 20 2)"
proof -
  have t: "\<bar>log_ratio (2 * sqrt 10) 2 - of_int (nearest_octave (2 * sqrt 10) 2)\<bar> = 1 / 2"
    by (simp add: nearest_octave_def log_ratio_tie py_round_def)
  have n: "\<bar>log_ratio 20 2 - of_int (nearest_octave 20 2)\<bar> \<noteq> 1 / 2"
    by (simp add: nearest_octave_def log_ratio_octave py_round_def)
  from nearest_octave_half_even [of "2 * sqrt 10" 2] nearest_octave_half_even [of 20 2] t n
  show ?thesis by blast
qed

text \<open>
  The claim as the specification states it fails where \<open>log_ratio\<close> is one half: the
  code rounds to \<open>0\<close>, rounding half away from zero gives \<open>1\<close>.
\<close>

theorem nearest_octave_half_away_counterexample:
  "log_ratio (2 * sqrt 10) 2 = 1 / 2 \<and> nearest_octave (2 * sqrt 10) 2 = 0 \<and>
   round_half_away_from_zero (log_ratio (2 * sqrt 10) 2) = 1"
  by (simp add: nearest_octave_def log_ratio_tie py_round_def round_half_away_from_zero_def)

section \<open>The impedance calculator\<close>

text \<open>
  C6. For positive ionization energy and positive radius the calculator returns, with
  \<open>r = radius / 100\<close>: the impedance \<open>ionization / r\<close> when there is no
  electronegativity, and \<open>sqrt (ionization * chi) / r\<close> when there is one (for
  \<open>chi < 0\<close> the square root has no real value and numpy's result is \<^verbatim>\<open>nan\<close>), each with
  the logarithm of the impedance plus one. The absent case is a branch of its own: it
  differs from the result for the electronegativity \<open>0\<close>.
\<close>

theorem impedance_formula:
  assumes "0 < ionization_ev" and "0 < radius_pm"
  shows "calculate_atomic_impedance ionization_ev None radius_pm =
           Inr (ionization_ev / (radius_pm / 100),
                ln (ionization_ev / (radius_pm / 100) + 1)) \<and>
         (\<forall>chi. 0 \<le> chi \<longrightarrow>
            calculate_atomic_impedance ionization_ev (Some chi) radius_pm =
              Inr (sqrt (ionization_ev * chi) / (radius_pm / 100),
                   ln (sqrt (ionization_ev * chi) / (radius_pm / 100) + 1))) \<and>
         (\<forall>chi. chi < 0 \<longrightarrow>
            calculate_atomic_impedance ionization_ev (Some chi) radius_pm = Inl NotFiniteReal) \<and>
         calculate_atomic_impedance ionization_ev None radius_pm \<noteq>
           calculate_atomic_impedance ionization_ev (Some 0) radius_pm"
proof -
  have z: "0 < ionization_ev / (radius_pm / 100)" using assms by simp
  then have "0 < ionization_ev / (radius_pm / 100) + 1" by linarith
  with assms have n: "calculate_atomic_impedance ionization_ev None radius_pm =
      Inr (ionization_ev / (radius_pm / 100), ln (ionization_ev / (radius_pm / 100) + 1))"
    by (intro impedance_None) simp_all
  have s: "calculate_atomic_impedance ionization_ev (Some chi) radius_pm =
      Inr (sqrt (ionization_ev * chi) / (radius_pm / 100),
           ln (sqrt (ionization_ev * chi) / (radius_pm / 100) + 1))" if "0 \<le> chi" for chi
    using assms that by (intro impedance_Some) simp_all
  have m: "calculate_atomic_impedance ionization_ev (Some chi) radius_pm = Inl NotFiniteReal"
    if "chi < 0" for chi
  proof -
    from that assms(1) have "ionization_ev * chi < 0" by (simp add: mult_pos_neg)
    then show ?thesis by (simp add: calculate_atomic_impedance_def Let_def)
  qed
  have "calculate_atomic_impedance ionization_ev (Some 0) radius_pm = Inr (0, 0)"
    using s [of 0] by simp
  with n z assms have d: "calculate_atomic_impedance ionization_ev None radius_pm \<noteq>
      calculate_atomic_impedance ionization_ev (Some 0) radius_pm"
    by simp
  from n s m d show ?thesis by blast
qed

theorem impedance_formula_witness:
  "(0::real) < 24.587 \<and> (0::real) < 31 \<and>
   calculate_atomic_impedance 24.587 None 31 =
     Inr (24.587 / (31 / 100), ln (24.587 / (31 / 100) + 1)) \<and>
   (0::real) \<le> 2.20 \<and>
   calculate_atomic_impedance 24.587 (Some 2.20) 31 =
     Inr (sqrt (24.587 * 2.20) / (31 / 100), ln (sqrt (24.587 * 2.20) / (31 / 100) + 1)) \<and>
   (- 1::real) < 0 \<and>
   calculate_atomic_impedance 24.587 (Some (- 1)) 31 = Inl NotFiniteReal"
proof -
  have a: "(0::real) < 24.587" and b: "(0::real) < 31" by simp_all
  have c: "(0::real) \<le> 2.20" and d: "(- 1::real) < 0" by simp_all
  from impedance_formula [OF a b] a b c d show ?thesis by blast
qed

text \<open>
  C5, as the code has it. The calculator checks none of its arguments. A positive
  radius and a positive ionization energy hold of every entry of the table; outside
  them the same formulas are applied wherever they have a finite real value, and the
  failures are those of the arithmetic: Python's \<^verbatim>\<open>ZeroDivisionError\<close> for the radius \<open>0\<close>
  with no electronegativity, numpy's \<^verbatim>\<open>inf\<close> or \<^verbatim>\<open>nan\<close> for the radius \<open>0\<close> with one.
\<close>

theorem impedance_unchecked:
  "list_all (\<lambda>(k, z, mass, e_ion, chi, radius, config). 0 < radius \<and> 0 < e_ion) ELEMENT_DATA \<and>
   (\<forall>e_ion radius. radius \<noteq> 0 \<and> 0 < e_ion / (radius / 100) + 1 \<longrightarrow>
      calculate_atomic_impedance e_ion None radius =
        Inr (e_ion / (radius / 100), ln (e_ion / (radius / 100) + 1))) \<and>
   (\<forall>e_ion chi radius.
      radius \<noteq> 0 \<and> 0 \<le> e_ion * chi \<and> 0 < sqrt (e_ion * chi) / (radius / 100) + 1 \<longrightarrow>
      calculate_atomic_impedance e_ion (Some chi) radius =
        Inr (sqrt (e_ion * chi) / (radius / 100),
             ln (sqrt (e_ion * chi) / (radius / 100) + 1))) \<and>
   (\<forall>e_ion. calculate_atomic_impedance e_ion None 0 = Inl ZeroDivisionError) \<and>
   (\<forall>e_ion chi. calculate_atomic_impedance e_ion (Some chi) 0 = Inl NotFiniteReal)"
proof -
  have t: "list_all (\<lambda>(k, z, mass, e_ion, chi, radius, config). 0 < radius \<and> 0 < e_ion)
      ELEMENT_DATA"
    using table_valid by (auto simp: list_all_iff valid_data_def)
  have n: "calculate_atomic_impedance e_ion None radius =
      Inr (e_ion / (radius / 100), ln (e_ion / (radius / 100) + 1))"
    if "radius \<noteq> 0 \<and> 0 < e_ion / (radius / 100) + 1" for e_ion radius
    using that by (intro impedance_None) simp_all
  have s: "calculate_atomic_impedance e_ion (Some chi) radius =
      Inr (sqrt (e_ion * chi) / (radius / 100), ln (sqrt (e_ion * chi) / (radius / 100) + 1))"
    if "radius \<noteq> 0 \<and> 0 \<le> e_ion * chi \<and> 0 < sqrt (e_ion * chi) / (radius / 100) + 1"
    for e_ion chi radius
  proof -
    from that have a: "\<not> (e_ion * chi < 0 \<or> radius / 100 = 0)" by auto
    from that have b: "\<not> sqrt (e_ion * chi) / (radius / 100) + 1 \<le> 0" by auto
    show ?thesis
      unfolding calculate_atomic_impedance_def Let_def option.case if_not_P [OF a] sum.case
        if_not_P [OF b]
      by (rule refl)
  qed
  have z: "calculate_atomic_impedance e_ion None 0 = Inl ZeroDivisionError" for e_ion
    by (simp add: calculate_atomic_impedance_def)
  have y: "calculate_atomic_impedance e_ion (Some chi) 0 = Inl NotFiniteReal" for e_ion chi
    by (simp add: calculate_atomic_impedance_def)
  show ?thesis
  proof (intro conjI allI impI)
    show "list_all (\<lambda>(k, z, mass, e_ion, chi, radius, config). 0 < radius \<and> 0 < e_ion)
        ELEMENT_DATA"
      by (rule t)
  next
    fix e_ion radius :: real
    assume "radius \<noteq> 0 \<and> 0 < e_ion / (radius / 100) + 1"
    then show "calculate_atomic_impedance e_ion None radius =
        Inr (e_ion / (radius / 100), ln (e_ion / (radius / 100) + 1))"
      by (rule n)
  next
    fix e_ion chi radius :: real
    assume "radius \<noteq> 0 \<and> 0 \<le> e_ion * chi \<and> 0 < sqrt (e_ion * chi) / (radius / 100) + 1"
    then show "calculate_atomic_impedance e_ion (Some chi) radius =
        Inr (sqrt (e_ion * chi) / (radius / 100), ln (sqrt (e_ion * chi) / (radius / 100) + 1))"
      by (rule s)
  next
    fix e_ion :: real
    show "calculate_atomic_impedance e_ion None 0 = Inl ZeroDivisionError" by (rule z)
  next
    fix e_ion chi :: real
    show "calculate_atomic_impedance e_ion (Some chi) 0 = Inl NotFiniteReal" by (rule y)
  qed
qed

theorem impedance_unchecked_witness:
  "((- 100::real) \<noteq> 0 \<and> (0::real) < (- 1) / ((- 100) / 100) + 1) \<and>
   calculate_atomic_impedance (- 1) None (- 100) =
     Inr ((- 1) / ((- 100) / 100), ln ((- 1) / ((- 100) / 100) + 1)) \<and>
   ((- 100::real) \<noteq> 0 \<and> (0::real) \<le> 0 * 1 \<and>
      (0::real) < sqrt (0 * 1) / ((- 100) / 100) + 1) \<and>
   calculate_atomic_impedance 0 (Some 1) (- 100) =
     Inr (sqrt (0 * 1) / ((- 100) / 100), ln (sqrt (0 * 1) / ((- 100) / 100) + 1))"
proof -
  have a: "(- 100::real) \<noteq> 0 \<and> (0::real) < (- 1) / ((- 100) / 100) + 1" by simp
  have c: "(- 100::real) \<noteq> 0 \<and> (0::real) \<le> 0 * 1 \<and>
      (0::real) < sqrt (0 * 1) / ((- 100) / 100) + 1"
    by simp
  note n = impedance_unchecked [THEN conjunct2, THEN conjunct1, rule_format, OF a]
  note s = impedance_unchecked [THEN conjunct2, THEN conjunct2, THEN conjunct1, rule_format, OF c]
  from a c n s show ?thesis by blast
qed

text \<open>
  The claim as the specification states it fails at the radius \<open>-200\<close> and at the
  ionization energy \<open>-1\<close>: the calculator returns numbers.
\<close>

theorem impedance_unchecked_counterexample:
  "calculate_atomic_impedance 1 None (- 200) = Inr (- 1 / 2, ln (1 / 2)) \<and>
   calculate_atomic_impedance (- 1) None 200 = Inr (- 1 / 2, ln (1 / 2))"
  by (simp add: calculate_atomic_impedance_def Let_def)

section \<open>The profile of hydrogen\<close>

lemma hydrogen_data:
  "map_of ELEMENT_DATA ''H'' = Some (1, 1.008, 13.598, Some 2.20, 53, ''1s1'')"
  by (simp add: ELEMENT_DATA_def)

lemma hydrogen_profile:
  "\<exists>p. analyze_element ''H'' = Inr (Some p) \<and>
     impedance p = sqrt (13.598 * 2.20) / 0.53 \<and>
     f_quantum p = 13.598 / (4135667 / 10 ^ 21)"
proof -
  from analyze_element_Some [OF hydrogen_data]
  obtain p where p: "analyze_element ''H'' = Inr (Some p)"
    and i: "calculate_atomic_impedance 13.598 (Some 2.20) 53 = Inr (impedance p, impedance_log p)"
    and q: "f_quantum p = 13.598 / H_PLANCK_EV"
    by blast
  have "calculate_atomic_impedance 13.598 (Some 2.20) 53 =
      Inr (sqrt (13.598 * 2.20) / (53 / 100), ln (sqrt (13.598 * 2.20) / (53 / 100) + 1))"
    by (rule impedance_Some) simp_all
  with i have "impedance p = sqrt (13.598 * 2.20) / (53 / 100)" by simp
  then have "impedance p = sqrt (13.598 * 2.20) / 0.53" by simp
  with p q show ?thesis by (auto simp: H_PLANCK_EV_def)
qed

lemma hydrogen_impedance_lower: "10.31 < sqrt (13.598 * 2.20) / 0.53"
proof -
  have "(5.4643::real) < sqrt (13.598 * 2.20)"
    by (rule real_less_rsqrt) (simp add: power2_eq_square)
  then show ?thesis by simp
qed

lemma hydrogen_impedance_upper: "sqrt (13.598 * 2.20) / 0.53 < 10.33"
proof -
  have "sqrt (13.598 * 2.20) < (5.4749::real)"
    by (rule real_less_lsqrt) (simp_all add: power2_eq_square)
  then show ?thesis by simp
qed

text \<open>
  C4, as the code has it. For the symbol \<^verbatim>\<open>H\<close> the impedance of the profile is
  \<open>sqrt (13.598 * 2.20) / 0.53\<close>, which is \<open>10.32\<close> to within \<open>0.01\<close>, and the quantum
  frequency is \<open>13.598 / 4.135667e-15\<close>, which is \<open>3.288e15\<close> to within \<open>0.001e15\<close>.
\<close>

theorem hydrogen_values:
  "\<exists>p. analyze_element ''H'' = Inr (Some p) \<and>
     impedance p = sqrt (13.598 * 2.20) / 0.53 \<and>
     \<bar>impedance p - 10.32\<bar> \<le> 0.01 \<and>
     f_quantum p = 13.598 / (4135667 / 10 ^ 21) \<and>
     \<bar>f_quantum p - 3288 * 10 ^ 12\<bar> \<le> 10 ^ 12"
proof -
  from hydrogen_profile obtain p where p: "analyze_element ''H'' = Inr (Some p)"
    and i: "impedance p = sqrt (13.598 * 2.20) / 0.53"
    and q: "f_quantum p = 13.598 / (4135667 / 10 ^ 21)"
    by blast
  from hydrogen_impedance_lower hydrogen_impedance_upper i
  have "10.31 < impedance p" and "impedance p < 10.33"
    by simp_all
  then have "impedance p - 10.32 \<le> 0.01" and "- (impedance p - 10.32) \<le> 0.01"
    by simp_all
  then have "\<bar>impedance p - 10.32\<bar> \<le> 0.01" by (rule abs_leI)
  moreover from q have "f_quantum p - 3288 * 10 ^ 12 \<le> 10 ^ 12"
    and "- (f_quantum p - 3288 * 10 ^ 12) \<le> 10 ^ 12"
    by simp_all
  then have "\<bar>f_quantum p - 3288 * 10 ^ 12\<bar> \<le> 10 ^ 12" by (rule abs_leI)
  ultimately show ?thesis using p i q by blast
qed

text \<open>
  The claim as the specification states it fails in its first number: the impedance of
  hydrogen is above \<open>10.31\<close>, so it is not \<open>10.30\<close> to within \<open>0.01\<close>.
\<close>

theorem hydrogen_impedance_counterexample:
  "map_option impedance (projr (analyze_element ''H'')) = Some (sqrt (13.598 * 2.20) / 0.53) \<and>
   \<not> \<bar>sqrt (13.598 * 2.20) / 0.53 - 10.30\<bar> \<le> 0.01"
proof -
  from hydrogen_profile obtain p where p: "analyze_element ''H'' = Inr (Some p)"
    and i: "impedance p = sqrt (13.598 * 2.20) / 0.53"
    by blast
  then have "map_option impedance (projr (analyze_element ''H'')) =
      Some (sqrt (13.598 * 2.20) / 0.53)"
    by simp
  moreover from hydrogen_impedance_lower
  have "\<not> sqrt (13.598 * 2.20) / 0.53 - 10.30 \<le> 0.01" by simp
  then have "\<not> \<bar>sqrt (13.598 * 2.20) / 0.53 - 10.30\<bar> \<le> 0.01"
    unfolding abs_le_iff by blast
  ultimately show ?thesis by blast
qed

section \<open>Compound prediction\<close>

lemma analyze_all_result:
  "\<exists>ps. analyze_all elems = Inr ps \<and>
     map symbol (List.map_filter (\<lambda>p. p) ps) =
       filter (\<lambda>e. e \<in> dom (map_of ELEMENT_DATA)) elems \<and>
     (\<forall>p \<in> set (List.map_filter (\<lambda>p. p) ps).
        0 < atomic_mass p \<and> symbol p \<in> dom (map_of ELEMENT_DATA))"
proof (induction elems)
  case Nil
  show ?case by simp
next
  case (Cons e es)
  then obtain ps where ps: "analyze_all es = Inr ps"
    and m: "map symbol (List.map_filter (\<lambda>p. p) ps) =
      filter (\<lambda>e. e \<in> dom (map_of ELEMENT_DATA)) es"
    and v: "\<forall>p \<in> set (List.map_filter (\<lambda>p. p) ps).
      0 < atomic_mass p \<and> symbol p \<in> dom (map_of ELEMENT_DATA)"
    by blast
  show ?case
  proof (cases "e \<in> dom (map_of ELEMENT_DATA)")
    case True
    from analyze_element_in_table [OF True]
    obtain p where p: "analyze_element e = Inr (Some p)" and s: "symbol p = e"
      and a: "0 < atomic_mass p"
      by blast
    from p ps have "analyze_all (e # es) = Inr (Some p # ps)" by simp
    moreover have "map symbol (List.map_filter (\<lambda>p. p) (Some p # ps)) =
        filter (\<lambda>e. e \<in> dom (map_of ELEMENT_DATA)) (e # es)"
      using m s True by simp
    moreover have "\<forall>q \<in> set (List.map_filter (\<lambda>p. p) (Some p # ps)).
        0 < atomic_mass q \<and> symbol q \<in> dom (map_of ELEMENT_DATA)"
      using v s a True by simp
    ultimately show ?thesis by blast
  next
    case False
    from analyze_element_not_in_table [OF False] ps
    have "analyze_all (e # es) = Inr (None # ps)" by simp
    moreover have "map symbol (List.map_filter (\<lambda>p. p) (None # ps)) =
        filter (\<lambda>e. e \<in> dom (map_of ELEMENT_DATA)) (e # es)"
      using m False by simp
    moreover have "\<forall>q \<in> set (List.map_filter (\<lambda>p. p) (None # ps)).
        0 < atomic_mass q \<and> symbol q \<in> dom (map_of ELEMENT_DATA)"
      using v by simp
    ultimately show ?thesis by blast
  qed
qed

lemma impedance_match_in_table:
  assumes "a \<in> dom (map_of ELEMENT_DATA)" and "b \<in> dom (map_of ELEMENT_DATA)"
  shows "\<exists>R l. calculate_impedance_match a b = Inr (R, l)"
proof -
  from analyze_element_in_table [OF assms(1)]
  obtain p where p: "analyze_element a = Inr (Some p)" by blast
  from analyze_element_in_table [OF assms(2)]
  obtain q where q: "analyze_element b = Inr (Some q)" by blast
  from impedance_match_score [OF p q] show ?thesis by blast
qed

lemma match_row_total:
  assumes "symbol p1 \<in> dom (map_of ELEMENT_DATA)"
    and "\<forall>p \<in> set ps. symbol p \<in> dom (map_of ELEMENT_DATA)"
  shows "\<exists>rs. match_row p1 ps = Inr rs \<and> length rs = length ps"
  using assms(2)
proof (induction ps)
  case Nil
  show ?case by simp
next
  case (Cons p2 ps)
  then have "symbol p2 \<in> dom (map_of ELEMENT_DATA)" by simp
  from impedance_match_in_table [OF assms(1) this]
  obtain R l where c: "calculate_impedance_match (symbol p1) (symbol p2) = Inr (R, l)" by blast
  from Cons obtain rs where "match_row p1 ps = Inr rs" and "length rs = length ps" by auto
  with c show ?case by simp
qed

lemma match_scores_total:
  assumes "\<forall>p \<in> set ps. symbol p \<in> dom (map_of ELEMENT_DATA)"
  shows "\<exists>rs. match_scores ps = Inr rs"
  using assms
proof (induction ps)
  case Nil
  show ?case by simp
next
  case (Cons p1 ps)
  then have "symbol p1 \<in> dom (map_of ELEMENT_DATA)"
    and r: "\<forall>p \<in> set ps. symbol p \<in> dom (map_of ELEMENT_DATA)"
    by simp_all
  from match_row_total [OF this] obtain row where "match_row p1 ps = Inr row" by blast
  moreover from Cons.IH [OF r] obtain others where "match_scores ps = Inr others" by blast
  ultimately show ?case by simp
qed

lemma sum_list_positive:
  assumes "xs \<noteq> []" and "\<forall>x \<in> set xs. (0::real) < x"
  shows "0 < sum_list xs"
  using assms
proof (induction xs)
  case Nil
  then show ?case by simp
next
  case (Cons x xs)
  show ?case
  proof (cases "xs = []")
    case True
    with Cons.prems show ?thesis by simp
  next
    case False
    with Cons have "0 < sum_list xs" by simp
    moreover from Cons.prems have "0 < x" by simp
    ultimately show ?thesis by simp
  qed
qed

lemma np_mean_nonempty: "xs \<noteq> [] \<Longrightarrow> \<exists>m. np_mean xs = Inr m"
  by (simp add: np_mean_def)

lemma predict_compound_few:
  assumes "length (filter (\<lambda>e. e \<in> dom (map_of ELEMENT_DATA)) elems) < 2"
  shows "predict_compound_frequency elems = Inr (Error_dict ''Need at least 2 valid elements'')"
proof -
  from analyze_all_result [of elems]
  obtain ps where ps: "analyze_all elems = Inr ps"
    and m: "map symbol (List.map_filter (\<lambda>p. p) ps) =
      filter (\<lambda>e. e \<in> dom (map_of ELEMENT_DATA)) elems"
    by blast
  from m have "length (List.map_filter (\<lambda>p. p) ps) =
      length (filter (\<lambda>e. e \<in> dom (map_of ELEMENT_DATA)) elems)"
    by (metis length_map)
  with assms have "length (List.map_filter (\<lambda>p. p) ps) < 2" by simp
  with ps show ?thesis by (simp add: predict_compound_frequency_def Let_def)
qed

lemma predict_compound_enough:
  assumes "2 \<le> length (filter (\<lambda>e. e \<in> dom (map_of ELEMENT_DATA)) elems)"
  shows "\<exists>r. predict_compound_frequency elems = Inr (Compound_dict r) \<and>
           elements r = filter (\<lambda>e. e \<in> dom (map_of ELEMENT_DATA)) elems"
proof -
  from analyze_all_result [of elems]
  obtain ps where ps: "analyze_all elems = Inr ps"
    and m: "map symbol (List.map_filter (\<lambda>p. p) ps) =
      filter (\<lambda>e. e \<in> dom (map_of ELEMENT_DATA)) elems"
    and v: "\<forall>p \<in> set (List.map_filter (\<lambda>p. p) ps).
      0 < atomic_mass p \<and> symbol p \<in> dom (map_of ELEMENT_DATA)"
    by blast
  define profiles where "profiles = List.map_filter (\<lambda>p. p) ps"
  from m have "length profiles =
      length (filter (\<lambda>e. e \<in> dom (map_of ELEMENT_DATA)) elems)"
    unfolding profiles_def by (metis length_map)
  with assms have len: "\<not> length profiles < 2" by simp
  then have ne: "profiles \<noteq> []" by auto
  from v have "\<forall>x \<in> set (map atomic_mass profiles). 0 < x"
    unfolding profiles_def by simp
  with ne have "0 < sum_list (map atomic_mass profiles)"
    by (intro sum_list_positive) simp_all
  then have mass: "sum_list (map atomic_mass profiles) \<noteq> 0"
    "\<not> sum_list (map atomic_mass profiles) < 0"
    by simp_all
  from ne obtain fc_avg where fc: "np_mean (map f_chemical profiles) = Inr fc_avg"
    using np_mean_nonempty [of "map f_chemical profiles"] by auto
  from ne obtain log_avg where lg: "np_mean (map impedance_log profiles) = Inr log_avg"
    using np_mean_nonempty [of "map impedance_log profiles"] by auto
  from v have "\<forall>p \<in> set profiles. symbol p \<in> dom (map_of ELEMENT_DATA)"
    unfolding profiles_def by simp
  from match_scores_total [OF this]
  obtain scores where sc: "match_scores profiles = Inr scores" by blast
  obtain avg_match where av: "(if scores \<noteq> [] then np_mean scores else Inr 0) = Inr avg_match"
    using np_mean_nonempty [of scores] by (cases "scores = []") auto
  have "predict_compound_frequency elems =
      Inr (Compound_dict
        \<lparr>elements = map symbol profiles,
         total_mass = sum_list (map atomic_mass profiles),
         f_acoustic_compound = 10 ^ 13 * (sum_list (map atomic_mass profiles) powr (- 1 / 3)),
         f_chemical_avg = fc_avg,
         compound_impedance = exp log_avg,
         average_impedance_match = avg_match,
         stability_prediction =
           (if avg_match > 0.5 then ''Stable''
            else if avg_match < 0.2 then ''Unstable''
            else ''Metastable'')\<rparr>)"
    unfolding predict_compound_frequency_def ps sum.case Let_def profiles_def [symmetric]
    using len mass fc lg sc av by simp
  moreover have "map symbol profiles = filter (\<lambda>e. e \<in> dom (map_of ELEMENT_DATA)) elems"
    using m unfolding profiles_def .
  ultimately show ?thesis by simp
qed

text \<open>
  C2. \<^verbatim>\<open>predict_compound_frequency\<close> drops the symbols that are not keys of the table
  and fails, by returning the dictionary with the one key \<^verbatim>\<open>error\<close>, exactly when fewer
  than two symbols resolve; with two or more it returns a prediction, whose elements
  are the resolved symbols in their order.
\<close>

theorem predict_compound_insufficient:
  "(length (filter (\<lambda>e. e \<in> dom (map_of ELEMENT_DATA)) elems) < 2 \<longrightarrow>
      predict_compound_frequency elems =
        Inr (Error_dict ''Need at least 2 valid elements'')) \<and>
   (2 \<le> length (filter (\<lambda>e. e \<in> dom (map_of ELEMENT_DATA)) elems) \<longrightarrow>
      (\<exists>r. predict_compound_frequency elems = Inr (Compound_dict r) \<and>
         elements r = filter (\<lambda>e. e \<in> dom (map_of ELEMENT_DATA)) elems))"
  using predict_compound_few [of elems] predict_compound_enough [of elems] by blast

theorem predict_compound_insufficient_witness:
  "length (filter (\<lambda>e. e \<in> dom (map_of ELEMENT_DATA)) [''Fe'']) < 2 \<and>
   predict_compound_frequency [''Fe''] = Inr (Error_dict ''Need at least 2 valid elements'') \<and>
   length (filter (\<lambda>e. e \<in> dom (map_of ELEMENT_DATA)) [''Xx'', ''Yy'']) < 2 \<and>
   predict_compound_frequency [''Xx'', ''Yy''] =
     Inr (Error_dict ''Need at least 2 valid elements'') \<and>
   2 \<le> length (filter (\<lambda>e. e \<in> dom (map_of ELEMENT_DATA)) [''Na'', ''Xx'', ''Cl'']) \<and>
   (\<exists>r. predict_compound_frequency [''Na'', ''Xx'', ''Cl''] = Inr (Compound_dict r) \<and>
      elements r = [''Na'', ''Cl''])"
proof -
  have fe: "''Fe'' \<in> dom (map_of ELEMENT_DATA)" by (simp add: ELEMENT_DATA_def)
  have na: "''Na'' \<in> dom (map_of ELEMENT_DATA)" by (simp add: ELEMENT_DATA_def)
  have cl: "''Cl'' \<in> dom (map_of ELEMENT_DATA)" by (simp add: ELEMENT_DATA_def)
  have xx: "''Xx'' \<notin> dom (map_of ELEMENT_DATA)" by (simp add: ELEMENT_DATA_def dom_def)
  have yy: "''Yy'' \<notin> dom (map_of ELEMENT_DATA)" by (simp add: ELEMENT_DATA_def dom_def)
  have a: "length (filter (\<lambda>e. e \<in> dom (map_of ELEMENT_DATA)) [''Fe'']) < 2"
    using fe by simp
  have b: "length (filter (\<lambda>e. e \<in> dom (map_of ELEMENT_DATA)) [''Xx'', ''Yy'']) < 2"
    using xx yy by simp
  have f: "filter (\<lambda>e. e \<in> dom (map_of ELEMENT_DATA)) [''Na'', ''Xx'', ''Cl''] =
      [''Na'', ''Cl'']"
    using na xx cl by simp
  then have c: "2 \<le> length (filter (\<lambda>e. e \<in> dom (map_of ELEMENT_DATA)) [''Na'', ''Xx'', ''Cl''])"
    by simp
  from predict_compound_insufficient [of "[''Fe'']"] a
  have 1: "predict_compound_frequency [''Fe''] =
      Inr (Error_dict ''Need at least 2 valid elements'')" by blast
  from predict_compound_insufficient [of "[''Xx'', ''Yy'']"] b
  have 2: "predict_compound_frequency [''Xx'', ''Yy''] =
      Inr (Error_dict ''Need at least 2 valid elements'')" by blast
  from predict_compound_insufficient [of "[''Na'', ''Xx'', ''Cl'']"] c
  have "\<exists>r. predict_compound_frequency [''Na'', ''Xx'', ''Cl''] = Inr (Compound_dict r) \<and>
      elements r = filter (\<lambda>e. e \<in> dom (map_of ELEMENT_DATA)) [''Na'', ''Xx'', ''Cl'']"
    by blast
  then have 3: "\<exists>r. predict_compound_frequency [''Na'', ''Xx'', ''Cl''] = Inr (Compound_dict r) \<and>
      elements r = [''Na'', ''Cl'']"
    unfolding f .
  from a b c 1 2 3 show ?thesis by blast
qed

end
